theory Spec2Isabelle
  imports Main "HOL-Library.Word" "HOL-Library.Monad_Syntax"
begin

section \<open>The reentrancy wrappers of src/port/thread.c\<close>

text \<open>
  The file holds two wrappers, \<^verbatim>\<open>pqGetpwuid\<close> and \<^verbatim>\<open>pqGethostbyname\<close>. Each one is
  compiled in one of two ways, chosen by preprocessor flags: it calls the reentrant
  library function (\<^verbatim>\<open>getpwuid_r\<close>, \<^verbatim>\<open>gethostbyname_r\<close>) or the legacy one
  (\<^verbatim>\<open>getpwuid\<close>, \<^verbatim>\<open>gethostbyname\<close>). The library functions belong to the platform,
  not to this file, so they are parameters of the embedding.
\<close>

subsection \<open>Values and memory\<close>

text \<open>
  An address is a natural number and the null pointer is address 0. A C \<^verbatim>\<open>int\<close>
  (status codes, \<^verbatim>\<open>errno\<close>, \<^verbatim>\<open>h_errno\<close>) is a 32-bit word, so that \<open>-1\<close> is the
  all-ones word. \<^verbatim>\<open>size_t\<close> is only passed through and is a natural number.
\<close>

type_synonym addr = nat
type_synonym cint = "32 word"
type_synonym uid_t = "32 word"
type_synonym size_t = nat

definition NULL :: addr where
  "NULL = 0"

text \<open>
  The memory the wrappers can touch, split by the type of the object stored, as the
  wrappers access every object through an lvalue of its own type:
  \<^item> \<open>errno\<close> and \<open>h_errno\<close>, the two ambient error indicators;
  \<^item> \<open>ptr_slots\<close>, the objects of type \<^verbatim>\<open>struct passwd *\<close> and \<^verbatim>\<open>struct hostent *\<close>
    (the slot \<^verbatim>\<open>*result\<close> is one of them);
  \<^item> \<open>int_slots\<close>, the objects of type \<^verbatim>\<open>int\<close> (the slot \<^verbatim>\<open>*herrno\<close> is one of them);
  \<^item> \<open>bytes\<close>, all other storage: the caller's scratch buffer, the caller's record
    \<^verbatim>\<open>*resultbuf\<close>, the name string and the platform's static records;
  \<^item> \<open>env\<close>, whatever else the platform's lookups depend on (account database,
    resolver).
\<close>

record 'e world =
  errno :: cint
  h_errno :: cint
  ptr_slots :: "addr \<Rightarrow> addr"
  int_slots :: "addr \<Rightarrow> cint"
  bytes :: "addr \<Rightarrow> 8 word"
  env :: 'e

text \<open>
  Storing or loading through a null pointer does not return: it is the value \<open>None\<close>.
\<close>

definition store_ptr :: "addr \<Rightarrow> addr \<Rightarrow> 'e world \<Rightarrow> 'e world option" where
  "store_ptr a v s =
     (if a = NULL then None else Some (s\<lparr>ptr_slots := (ptr_slots s)(a := v)\<rparr>))"

definition load_ptr :: "addr \<Rightarrow> 'e world \<Rightarrow> addr option" where
  "load_ptr a s = (if a = NULL then None else Some (ptr_slots s a))"

definition store_int :: "addr \<Rightarrow> cint \<Rightarrow> 'e world \<Rightarrow> 'e world option" where
  "store_int a v s =
     (if a = NULL then None else Some (s\<lparr>int_slots := (int_slots s)(a := v)\<rparr>))"

subsection \<open>The platform and the build configuration\<close>

text \<open>
  The four library functions, each with the arguments of its C prototype followed by the
  memory it runs in. A call gives its return value and the memory it leaves, or \<open>None\<close>
  when it does not return. \<^verbatim>\<open>gethostbyname_r\<close> is the early draft form the source
  calls: five arguments, returning the record pointer.
\<close>

record 'e platform =
  getpwuid_r :: "uid_t \<Rightarrow> addr \<Rightarrow> addr \<Rightarrow> size_t \<Rightarrow> addr \<Rightarrow> 'e world
                   \<Rightarrow> (cint \<times> 'e world) option"
  getpwuid :: "uid_t \<Rightarrow> 'e world \<Rightarrow> (addr \<times> 'e world) option"
  gethostbyname_r :: "addr \<Rightarrow> addr \<Rightarrow> addr \<Rightarrow> size_t \<Rightarrow> addr \<Rightarrow> 'e world
                        \<Rightarrow> (addr \<times> 'e world) option"
  gethostbyname :: "addr \<Rightarrow> 'e world \<Rightarrow> (addr \<times> 'e world) option"

text \<open>
  The preprocessor symbols the two \<^verbatim>\<open>#if\<close> lines test. (\<^verbatim>\<open>pqGetpwuid\<close> exists only
  when \<^verbatim>\<open>WIN32\<close> is undefined and \<^verbatim>\<open>pqGethostbyname\<close> only when \<^verbatim>\<open>HAVE_GETADDRINFO\<close>
  is undefined; the embedding is of the builds that have them.)
\<close>

record config =
  FRONTEND :: bool
  ENABLE_THREAD_SAFETY :: bool
  HAVE_GETPWUID_R :: bool
  HAVE_GETHOSTBYNAME_R :: bool

definition use_getpwuid_r :: "config \<Rightarrow> bool" where
  "use_getpwuid_r cfg \<longleftrightarrow> FRONTEND cfg \<and> ENABLE_THREAD_SAFETY cfg \<and> HAVE_GETPWUID_R cfg"

definition use_gethostbyname_r :: "config \<Rightarrow> bool" where
  "use_gethostbyname_r cfg \<longleftrightarrow>
     FRONTEND cfg \<and> ENABLE_THREAD_SAFETY cfg \<and> HAVE_GETHOSTBYNAME_R cfg"

subsection \<open>The two wrappers\<close>

text \<open>
  \<^verbatim>\<open>
  #if defined(FRONTEND) && defined(ENABLE_THREAD_SAFETY) && defined(HAVE_GETPWUID_R)
      return getpwuid_r(uid, resultbuf, buffer, buflen, result);
  #else
      errno = 0;
      *result = getpwuid(uid);
      return (*result == NULL) ? errno : 0;
  #endif
  \<close>
\<close>

definition pqGetpwuid ::
  "config \<Rightarrow> 'e platform \<Rightarrow> uid_t \<Rightarrow> addr \<Rightarrow> addr \<Rightarrow> size_t \<Rightarrow> addr \<Rightarrow> 'e world
     \<Rightarrow> (cint \<times> 'e world) option" where
  "pqGetpwuid cfg P uid resultbuf buffer buflen result s =
     (if use_getpwuid_r cfg then
        getpwuid_r P uid resultbuf buffer buflen result s
      else do {
        (p, s1) \<leftarrow> getpwuid P uid (s\<lparr>errno := 0\<rparr>);
        s2 \<leftarrow> store_ptr result p s1;
        r \<leftarrow> load_ptr result s2;
        Some (if r = NULL then errno s2 else 0, s2)
      })"

text \<open>
  \<^verbatim>\<open>
  #if defined(FRONTEND) && defined(ENABLE_THREAD_SAFETY) && defined(HAVE_GETHOSTBYNAME_R)
      *result = gethostbyname_r(name, resultbuf, buffer, buflen, herrno);
      return (*result == NULL) ? -1 : 0;
  #else
      *result = gethostbyname(name);
      if (*result != NULL)
          *herrno = h_errno;
      if (*result != NULL)
          return 0;
      else
          return -1;
  #endif
  \<close>
\<close>

definition pqGethostbyname ::
  "config \<Rightarrow> 'e platform \<Rightarrow> addr \<Rightarrow> addr \<Rightarrow> addr \<Rightarrow> size_t \<Rightarrow> addr \<Rightarrow> addr \<Rightarrow> 'e world
     \<Rightarrow> (cint \<times> 'e world) option" where
  "pqGethostbyname cfg P name resultbuf buffer buflen result herrno s =
     (if use_gethostbyname_r cfg then do {
        (p, s1) \<leftarrow> gethostbyname_r P name resultbuf buffer buflen herrno s;
        s2 \<leftarrow> store_ptr result p s1;
        r \<leftarrow> load_ptr result s2;
        Some (if r = NULL then - 1 else 0, s2)
      }
      else do {
        (p, s1) \<leftarrow> gethostbyname P name s;
        s2 \<leftarrow> store_ptr result p s1;
        r \<leftarrow> load_ptr result s2;
        s3 \<leftarrow> (if r \<noteq> NULL then store_int herrno (h_errno s2) s2 else Some s2);
        r' \<leftarrow> load_ptr result s3;
        Some (if r' \<noteq> NULL then 0 else - 1, s3)
      })"

subsection \<open>What the caller observes, and the contract of the platform\<close>

text \<open>
  After a call the caller has the status code and reads \<^verbatim>\<open>*result\<close>
  (and \<^verbatim>\<open>*herrno\<close> for the host lookup).
\<close>

definition status_and_result :: "addr \<Rightarrow> (cint \<times> 'e world) option \<Rightarrow> (cint \<times> addr) option" where
  "status_and_result result r = map_option (\<lambda>(rc, s'). (rc, ptr_slots s' result)) r"

definition host_outputs ::
  "addr \<Rightarrow> addr \<Rightarrow> (cint \<times> 'e world) option \<Rightarrow> (cint \<times> addr \<times> cint) option" where
  "host_outputs result herrno r =
     map_option (\<lambda>(rc, s'). (rc, ptr_slots s' result, int_slots s' herrno)) r"

text \<open>
  The comment above \<^verbatim>\<open>pqGetpwuid\<close> lists the possible cases, per POSIX:
  success (returns zero, \<^verbatim>\<open>*result\<close> is non-NULL), uid not found (returns zero,
  \<^verbatim>\<open>*result\<close> is NULL), error during lookup (returns an errno code, \<^verbatim>\<open>*result\<close> is
  NULL).
\<close>

definition three_way :: "cint \<Rightarrow> addr \<Rightarrow> bool" where
  "three_way rc r \<longleftrightarrow> (rc = 0 \<and> r \<noteq> NULL) \<or> (rc = 0 \<and> r = NULL) \<or> (rc \<noteq> 0 \<and> r = NULL)"

text \<open>
  A platform whose \<^verbatim>\<open>getpwuid_r\<close> follows POSIX: whenever it returns, the outcome is one
  of the three cases, and the pointer it has stored in \<^verbatim>\<open>*result\<close> is null or the
  caller's record.
\<close>

definition posix_getpwuid_r :: "'e platform \<Rightarrow> bool" where
  "posix_getpwuid_r P \<longleftrightarrow>
     (\<forall>uid resultbuf buffer buflen result s rc s'.
        result \<noteq> NULL \<longrightarrow>
        getpwuid_r P uid resultbuf buffer buflen result s = Some (rc, s') \<longrightarrow>
        three_way rc (ptr_slots s' result) \<and>
        (ptr_slots s' result = NULL \<or> ptr_slots s' result = resultbuf))"





subsection \<open>A sample platform\<close>

text \<open>
  A small platform to run the wrappers on. Its account database knows uid 0 (the record
  is at static address 500), reports uid 1 as absent and fails on every other uid with
  error 5; its reentrant lookup wants a buffer of 16 bytes and answers 34 (the value of
  \<^verbatim>\<open>ERANGE\<close>) to a smaller one. Its resolver knows the name stored at address 100 (the
  static record is at address 600) and reports every other name with resolver error 1.
\<close>

definition sample_getpwuid_r ::
  "uid_t \<Rightarrow> addr \<Rightarrow> addr \<Rightarrow> size_t \<Rightarrow> addr \<Rightarrow> unit world \<Rightarrow> (cint \<times> unit world) option" where
  "sample_getpwuid_r uid resultbuf buffer buflen result s =
     (if result = NULL then None
      else if buflen < 16 then Some (34, s\<lparr>ptr_slots := (ptr_slots s)(result := NULL)\<rparr>)
      else if uid = 0 then
        Some (0, s\<lparr>ptr_slots := (ptr_slots s)(result := resultbuf),
                   bytes := (bytes s)(resultbuf := 114)\<rparr>)
      else if uid = 1 then Some (0, s\<lparr>ptr_slots := (ptr_slots s)(result := NULL)\<rparr>)
      else Some (5, s\<lparr>ptr_slots := (ptr_slots s)(result := NULL)\<rparr>))"

definition sample_getpwuid :: "uid_t \<Rightarrow> unit world \<Rightarrow> (addr \<times> unit world) option" where
  "sample_getpwuid uid s =
     (if uid = 0 then Some (500, s)
      else if uid = 1 then Some (NULL, s)
      else Some (NULL, s\<lparr>errno := 5\<rparr>))"

definition sample_gethostbyname_r ::
  "addr \<Rightarrow> addr \<Rightarrow> addr \<Rightarrow> size_t \<Rightarrow> addr \<Rightarrow> unit world \<Rightarrow> (addr \<times> unit world) option" where
  "sample_gethostbyname_r name resultbuf buffer buflen herrno s =
     (if name = 100 then Some (resultbuf, s\<lparr>bytes := (bytes s)(resultbuf := 2)\<rparr>)
      else Some (NULL, s\<lparr>int_slots := (int_slots s)(herrno := 1)\<rparr>))"

definition sample_gethostbyname :: "addr \<Rightarrow> unit world \<Rightarrow> (addr \<times> unit world) option" where
  "sample_gethostbyname name s =
     (if name = 100 then Some (600, s\<lparr>h_errno := 0\<rparr>) else Some (NULL, s\<lparr>h_errno := 1\<rparr>))"

definition sample_platform :: "unit platform" where
  "sample_platform =
     \<lparr>getpwuid_r = sample_getpwuid_r, getpwuid = sample_getpwuid,
      gethostbyname_r = sample_gethostbyname_r, gethostbyname = sample_gethostbyname\<rparr>"

text \<open>The same platform with a resolver that gives another reason (2) for a failure.\<close>

definition sample_gethostbyname2 :: "addr \<Rightarrow> unit world \<Rightarrow> (addr \<times> unit world) option" where
  "sample_gethostbyname2 name s =
     (if name = 100 then Some (600, s\<lparr>h_errno := 0\<rparr>) else Some (NULL, s\<lparr>h_errno := 2\<rparr>))"

definition sample_platform2 :: "unit platform" where
  "sample_platform2 = sample_platform\<lparr>gethostbyname := sample_gethostbyname2\<rparr>"

text \<open>
  A caller's memory before the call: stale values in both error indicators, in every
  pointer slot (99) and in every int slot (42).
\<close>

definition sample_world :: "unit world" where
  "sample_world =
     \<lparr>errno = 7, h_errno = 3, ptr_slots = (\<lambda>_. 99), int_slots = (\<lambda>_. 42),
      bytes = (\<lambda>_. 0), env = ()\<rparr>"


text \<open>A threaded client build, and a build that compiles the legacy branches.\<close>

definition threaded_build :: config where
  "threaded_build =
     \<lparr>FRONTEND = True, ENABLE_THREAD_SAFETY = True,
      HAVE_GETPWUID_R = True, HAVE_GETHOSTBYNAME_R = True\<rparr>"

definition plain_build :: config where
  "plain_build =
     \<lparr>FRONTEND = True, ENABLE_THREAD_SAFETY = False,
      HAVE_GETPWUID_R = True, HAVE_GETHOSTBYNAME_R = True\<rparr>"

subsection \<open>What each compiled branch computes\<close>

lemma pqGetpwuid_legacy_returns:
  assumes "\<not> use_getpwuid_r cfg"
  shows "pqGetpwuid cfg P uid resultbuf buffer buflen result s = Some (rc, s') \<longleftrightarrow>
           result \<noteq> NULL \<and>
           (\<exists>p s1. getpwuid P uid (s\<lparr>errno := 0\<rparr>) = Some (p, s1) \<and>
                   s' = s1\<lparr>ptr_slots := (ptr_slots s1)(result := p)\<rparr> \<and>
                   rc = (if p = NULL then errno s1 else 0))"
  using assms
  by (auto simp: pqGetpwuid_def store_ptr_def load_ptr_def bind_eq_Some_conv)

lemma pqGethostbyname_reentrant_returns:
  assumes "use_gethostbyname_r cfg"
  shows "pqGethostbyname cfg P name resultbuf buffer buflen result herrno s = Some (rc, s') \<longleftrightarrow>
           result \<noteq> NULL \<and>
           (\<exists>p s1. gethostbyname_r P name resultbuf buffer buflen herrno s = Some (p, s1) \<and>
                   s' = s1\<lparr>ptr_slots := (ptr_slots s1)(result := p)\<rparr> \<and>
                   rc = (if p = NULL then - 1 else 0))"
  using assms
  by (auto simp: pqGethostbyname_def store_ptr_def load_ptr_def bind_eq_Some_conv)

lemma pqGethostbyname_legacy_returns:
  assumes "\<not> use_gethostbyname_r cfg"
  shows "pqGethostbyname cfg P name resultbuf buffer buflen result herrno s = Some (rc, s') \<longleftrightarrow>
           result \<noteq> NULL \<and>
           (\<exists>p s1. gethostbyname P name s = Some (p, s1) \<and>
                   (if p = NULL
                    then s' = s1\<lparr>ptr_slots := (ptr_slots s1)(result := p)\<rparr> \<and> rc = - 1
                    else herrno \<noteq> NULL \<and>
                         s' = s1\<lparr>ptr_slots := (ptr_slots s1)(result := p),
                                 int_slots := (int_slots s1)(herrno := h_errno s1)\<rparr> \<and>
                         rc = 0))"
proof (cases "gethostbyname P name s")
  case None
  with assms show ?thesis by (simp add: pqGethostbyname_def)
next
  case (Some a)
  obtain p s1 where a: "a = (p, s1)" by (cases a)
  show ?thesis
  proof (cases "result = NULL")
    case True
    with assms Some a show ?thesis by (simp add: pqGethostbyname_def store_ptr_def)
  next
    case False
    note res = this
    show ?thesis
    proof (cases "p = NULL")
      case True
      with assms Some a res show ?thesis
        by (simp add: pqGethostbyname_def store_ptr_def load_ptr_def) blast
    next
      case False
      with assms Some a res show ?thesis
        by (cases "herrno = NULL")
           (auto simp add: pqGethostbyname_def store_ptr_def load_ptr_def store_int_def)
    qed
  qed
qed


subsection \<open>Reading a lookup's answer\<close>




subsection \<open>Facts about the sample platform\<close>

lemma threaded_build_reentrant:
  "use_getpwuid_r threaded_build" "use_gethostbyname_r threaded_build"
  by (simp_all add: use_getpwuid_r_def use_gethostbyname_r_def threaded_build_def)

lemma plain_build_legacy:
  "\<not> use_getpwuid_r plain_build" "\<not> use_gethostbyname_r plain_build"
  by (simp_all add: use_getpwuid_r_def use_gethostbyname_r_def plain_build_def)

lemma sample_platform_sel:
  "getpwuid_r sample_platform = sample_getpwuid_r"
  "getpwuid sample_platform = sample_getpwuid"
  "gethostbyname_r sample_platform = sample_gethostbyname_r"
  "gethostbyname sample_platform = sample_gethostbyname"
  "getpwuid_r sample_platform2 = sample_getpwuid_r"
  "getpwuid sample_platform2 = sample_getpwuid"
  "gethostbyname_r sample_platform2 = sample_gethostbyname_r"
  "gethostbyname sample_platform2 = sample_gethostbyname2"
  by (simp_all add: sample_platform_def sample_platform2_def)

lemma sample_platform_posix: "posix_getpwuid_r sample_platform"
  unfolding posix_getpwuid_r_def sample_platform_sel sample_getpwuid_r_def three_way_def
  by (auto split: if_splits)

section \<open>The claims\<close>

subsection \<open>The identity lookup\<close>

text \<open>
  C1. \<^verbatim>\<open>pqGetpwuid\<close> keeps the three-way contract. Whenever a call with a result slot
  returns, its status and the content of \<^verbatim>\<open>*result\<close> are one of: zero and non-null
  (found), zero and null (no such uid), non-zero and null (lookup failure); so a non-zero
  status never comes with a non-null \<^verbatim>\<open>*result\<close>. In the legacy strategy the wrapper
  builds the outcome itself from what \<^verbatim>\<open>getpwuid\<close> answers, run with the error indicator
  cleared: the pointer goes to \<^verbatim>\<open>*result\<close> and nothing else is written; a non-null
  pointer gives status zero, a null pointer with the indicator untouched (not found) gives
  status zero, a null pointer with the indicator set gives that indicator. In the
  reentrant strategy status and memory are exactly the ones \<^verbatim>\<open>getpwuid_r\<close> gave on the
  caller's arguments; that function follows POSIX, so \<^verbatim>\<open>*result\<close> is null or the
  caller's record.
\<close>

theorem pqGetpwuid_three_way:
  assumes ret: "pqGetpwuid cfg P uid resultbuf buffer buflen result s = Some (rc, s')"
      and slot: "result \<noteq> NULL"
      and posix: "use_getpwuid_r cfg \<Longrightarrow> posix_getpwuid_r P"
  shows "three_way rc (ptr_slots s' result) \<and>
         \<not> (rc \<noteq> 0 \<and> ptr_slots s' result \<noteq> NULL) \<and>
         (use_getpwuid_r cfg \<longrightarrow>
            getpwuid_r P uid resultbuf buffer buflen result s = Some (rc, s') \<and>
            (ptr_slots s' result = NULL \<or> ptr_slots s' result = resultbuf)) \<and>
         (\<not> use_getpwuid_r cfg \<longrightarrow>
            (\<exists>p s1. getpwuid P uid (s\<lparr>errno := 0\<rparr>) = Some (p, s1) \<and>
                    s' = s1\<lparr>ptr_slots := (ptr_slots s1)(result := p)\<rparr> \<and>
                    ptr_slots s' result = p \<and>
                    (p \<noteq> NULL \<longrightarrow> rc = 0) \<and>
                    (p = NULL \<and> errno s1 = 0 \<longrightarrow> rc = 0) \<and>
                    (p = NULL \<and> errno s1 \<noteq> 0 \<longrightarrow> rc = errno s1)))"
proof (cases "use_getpwuid_r cfg")
  case True
  with ret have call: "getpwuid_r P uid resultbuf buffer buflen result s = Some (rc, s')"
    by (simp add: pqGetpwuid_def)
  with posix [OF True] slot
  have "three_way rc (ptr_slots s' result) \<and>
        (ptr_slots s' result = NULL \<or> ptr_slots s' result = resultbuf)"
    unfolding posix_getpwuid_r_def by blast
  with True call show ?thesis by (auto simp: three_way_def)
next
  case False
  from ret obtain p s1 where
    lookup: "getpwuid P uid (s\<lparr>errno := 0\<rparr>) = Some (p, s1)" and
    s': "s' = s1\<lparr>ptr_slots := (ptr_slots s1)(result := p)\<rparr>" and
    rc: "rc = (if p = NULL then errno s1 else 0)"
    unfolding pqGetpwuid_legacy_returns [OF False] by blast
  from s' have slot_p: "ptr_slots s' result = p" by simp
  have "three_way rc (ptr_slots s' result)"
    using rc slot_p by (simp add: three_way_def)
  moreover have "\<not> (rc \<noteq> 0 \<and> ptr_slots s' result \<noteq> NULL)"
    using rc slot_p by simp
  moreover have "\<exists>p s1. getpwuid P uid (s\<lparr>errno := 0\<rparr>) = Some (p, s1) \<and>
                    s' = s1\<lparr>ptr_slots := (ptr_slots s1)(result := p)\<rparr> \<and>
                    ptr_slots s' result = p \<and>
                    (p \<noteq> NULL \<longrightarrow> rc = 0) \<and>
                    (p = NULL \<and> errno s1 = 0 \<longrightarrow> rc = 0) \<and>
                    (p = NULL \<and> errno s1 \<noteq> 0 \<longrightarrow> rc = errno s1)"
    using lookup s' slot_p rc by auto
  ultimately show ?thesis using False by blast
qed

theorem pqGetpwuid_three_way_witness:
  "use_getpwuid_r threaded_build \<and> posix_getpwuid_r sample_platform \<and> (30::addr) \<noteq> NULL \<and>
   status_and_result 30 (pqGetpwuid threaded_build sample_platform 0 10 20 64 30 sample_world)
     = Some (0, 10) \<and>
   status_and_result 30 (getpwuid_r sample_platform 0 10 20 64 30 sample_world)
     = Some (0, 10) \<and>
   status_and_result 30 (pqGetpwuid threaded_build sample_platform 1 10 20 64 30 sample_world)
     = Some (0, NULL) \<and>
   status_and_result 30 (pqGetpwuid threaded_build sample_platform 2 10 20 64 30 sample_world)
     = Some (5, NULL) \<and>
   \<not> use_getpwuid_r plain_build \<and>
   status_and_result 30 (pqGetpwuid plain_build sample_platform 0 10 20 64 30 sample_world)
     = Some (0, 500) \<and>
   status_and_result 30 (pqGetpwuid plain_build sample_platform 1 10 20 64 30 sample_world)
     = Some (0, NULL) \<and>
   status_and_result 30 (pqGetpwuid plain_build sample_platform 2 10 20 64 30 sample_world)
     = Some (5, NULL) \<and>
   three_way 0 10 \<and> three_way 0 500 \<and> three_way 0 NULL \<and> three_way 5 NULL"
proof -
  have n: "(30::addr) \<noteq> NULL" by (simp add: NULL_def)
  have r0: "pqGetpwuid threaded_build sample_platform 0 10 20 64 30 sample_world
             = Some (0, sample_world\<lparr>ptr_slots := (ptr_slots sample_world)(30 := 10),
                                    bytes := (bytes sample_world)(10 := 114)\<rparr>)"
    by (simp add: pqGetpwuid_def threaded_build_reentrant sample_platform_sel
          sample_getpwuid_r_def NULL_def)
  have r1: "pqGetpwuid threaded_build sample_platform 1 10 20 64 30 sample_world
             = Some (0, sample_world\<lparr>ptr_slots := (ptr_slots sample_world)(30 := NULL)\<rparr>)"
    by (simp add: pqGetpwuid_def threaded_build_reentrant sample_platform_sel
          sample_getpwuid_r_def NULL_def)
  have r2: "pqGetpwuid threaded_build sample_platform 2 10 20 64 30 sample_world
             = Some (5, sample_world\<lparr>ptr_slots := (ptr_slots sample_world)(30 := NULL)\<rparr>)"
    by (simp add: pqGetpwuid_def threaded_build_reentrant sample_platform_sel
          sample_getpwuid_r_def NULL_def)
  have l0: "pqGetpwuid plain_build sample_platform 0 10 20 64 30 sample_world
             = Some (0, sample_world\<lparr>errno := 0, ptr_slots := (ptr_slots sample_world)(30 := 500)\<rparr>)"
    by (simp add: pqGetpwuid_legacy_returns plain_build_legacy sample_platform_sel
          sample_getpwuid_def NULL_def)
  have l1: "pqGetpwuid plain_build sample_platform 1 10 20 64 30 sample_world
             = Some (0, sample_world\<lparr>errno := 0, ptr_slots := (ptr_slots sample_world)(30 := NULL)\<rparr>)"
    by (simp add: pqGetpwuid_legacy_returns plain_build_legacy sample_platform_sel
          sample_getpwuid_def NULL_def)
  have l2: "pqGetpwuid plain_build sample_platform 2 10 20 64 30 sample_world
             = Some (5, sample_world\<lparr>errno := 5, ptr_slots := (ptr_slots sample_world)(30 := NULL)\<rparr>)"
    by (simp add: pqGetpwuid_legacy_returns plain_build_legacy sample_platform_sel
          sample_getpwuid_def NULL_def)
  have t: "use_getpwuid_r threaded_build" by (rule threaded_build_reentrant)
  have found: "getpwuid_r sample_platform 0 10 20 64 30 sample_world
             = Some (0, sample_world\<lparr>ptr_slots := (ptr_slots sample_world)(30 := 10),
                                    bytes := (bytes sample_world)(10 := 114)\<rparr>)"
    using pqGetpwuid_three_way [OF r0 n sample_platform_posix] t by simp
  have ways: "three_way 0 10 \<and> three_way 0 500 \<and> three_way 0 NULL \<and> three_way 5 NULL"
    using pqGetpwuid_three_way [OF r0 n sample_platform_posix]
      pqGetpwuid_three_way [OF r2 n sample_platform_posix]
      pqGetpwuid_three_way [OF l0 n] pqGetpwuid_three_way [OF l1 n]
    by (simp add: plain_build_legacy)
  show ?thesis
    unfolding r0 r1 r2 l0 l1 l2 found
    using n t ways
    by (simp add: plain_build_legacy sample_platform_posix status_and_result_def)
qed

text \<open>
  C2. In the legacy strategy \<^verbatim>\<open>pqGetpwuid\<close> runs \<^verbatim>\<open>getpwuid\<close> in the memory whose \<open>errno\<close>
  it has set to zero. When that lookup returns the pointer \<open>p\<close> and leaves the memory
  \<open>s1\<close>, the wrapper returns, with \<open>p\<close> stored in \<^verbatim>\<open>*result\<close> and nothing else changed
  after the lookup. Its status is the \<open>errno\<close> the lookup left when \<open>p\<close> is null (so zero
  when the lookup left the cleared indicator as it was), and zero when \<open>p\<close> is not null,
  whatever the indicator holds.
\<close>

theorem pqGetpwuid_legacy_errno:
  assumes "\<not> use_getpwuid_r cfg"
      and "result \<noteq> NULL"
      and "getpwuid P uid (s\<lparr>errno := 0\<rparr>) = Some (p, s1)"
  shows "pqGetpwuid cfg P uid resultbuf buffer buflen result s =
           Some (if p = NULL then errno s1 else 0,
                 s1\<lparr>ptr_slots := (ptr_slots s1)(result := p)\<rparr>) \<and>
         (p = NULL \<and> errno s1 = errno (s\<lparr>errno := 0\<rparr>) \<longrightarrow>
            map_option fst (pqGetpwuid cfg P uid resultbuf buffer buflen result s) = Some 0) \<and>
         (p \<noteq> NULL \<longrightarrow>
            map_option fst (pqGetpwuid cfg P uid resultbuf buffer buflen result s) = Some 0)"
  using assms by (simp add: pqGetpwuid_legacy_returns)

theorem pqGetpwuid_legacy_errno_witness:
  "\<not> use_getpwuid_r plain_build \<and> (30::addr) \<noteq> NULL \<and>
   status_and_result 30 (pqGetpwuid plain_build sample_platform 2 10 20 64 30 sample_world)
     = Some (5, NULL) \<and>
   status_and_result 30 (pqGetpwuid plain_build sample_platform 1 10 20 64 30 sample_world)
     = Some (0, NULL) \<and>
   status_and_result 30 (pqGetpwuid plain_build sample_platform 0 10 20 64 30 sample_world)
     = Some (0, 500)"
proof -
  have h: "\<not> use_getpwuid_r plain_build" by (rule plain_build_legacy)
  have n: "(30::addr) \<noteq> NULL" by (simp add: NULL_def)
  have l2: "getpwuid sample_platform 2 (sample_world\<lparr>errno := 0\<rparr>)
              = Some (NULL, sample_world\<lparr>errno := 0\<rparr>\<lparr>errno := 5\<rparr>)"
    by (simp add: sample_platform_sel sample_getpwuid_def)
  have l1: "getpwuid sample_platform 1 (sample_world\<lparr>errno := 0\<rparr>)
              = Some (NULL, sample_world\<lparr>errno := 0\<rparr>)"
    by (simp add: sample_platform_sel sample_getpwuid_def)
  have l0: "getpwuid sample_platform 0 (sample_world\<lparr>errno := 0\<rparr>)
              = Some (500, sample_world\<lparr>errno := 0\<rparr>)"
    by (simp add: sample_platform_sel sample_getpwuid_def)
  show ?thesis
    using h n pqGetpwuid_legacy_errno [OF h n l2, of 10 20 64]
      pqGetpwuid_legacy_errno [OF h n l1, of 10 20 64]
      pqGetpwuid_legacy_errno [OF h n l0, of 10 20 64]
    by (simp add: status_and_result_def NULL_def)
qed

text \<open>
  C5 does not hold in the legacy strategy. A buffer of length 0 is too small for the
  sample platform: in the threaded build the call answers 34 with a null \<^verbatim>\<open>*result\<close>.
  The legacy build, given the same undersized buffer, returns status 0 and the non-null
  record of uid 0.
\<close>

theorem undersized_buffer_legacy_counterexample:
  "\<not> use_getpwuid_r plain_build \<and>
   status_and_result 30 (pqGetpwuid threaded_build sample_platform 0 10 20 0 30 sample_world)
     = Some (34, NULL) \<and>
   status_and_result 30 (pqGetpwuid plain_build sample_platform 0 10 20 0 30 sample_world)
     = Some (0, 500) \<and>
   (500::addr) \<noteq> NULL"
  by (simp add: plain_build_legacy pqGetpwuid_def threaded_build_reentrant sample_platform_sel
        sample_getpwuid_r_def sample_getpwuid_def store_ptr_def load_ptr_def
        status_and_result_def NULL_def)

text \<open>
  C5, amended. In the reentrant strategy, when \<^verbatim>\<open>getpwuid_r\<close> refuses the caller's buffer
  (a non-zero code, \<^verbatim>\<open>*result\<close> null), \<^verbatim>\<open>pqGetpwuid\<close> returns that code with \<^verbatim>\<open>*result\<close>
  null, and its whole effect is that of the one call of \<^verbatim>\<open>getpwuid_r\<close> on the caller's
  buffer and length: there is no second call on a larger buffer. In the legacy strategy
  the record, the buffer and the length are not used: the call is the same whatever
  they are, so a small buffer is no failure.
\<close>

theorem pqGetpwuid_undersized_buffer:
  "(use_getpwuid_r cfg \<longrightarrow>
      getpwuid_r P uid resultbuf buffer buflen result s = Some (rc, s1) \<longrightarrow>
      rc \<noteq> 0 \<longrightarrow> ptr_slots s1 result = NULL \<longrightarrow>
      pqGetpwuid cfg P uid resultbuf buffer buflen result s = Some (rc, s1) \<and>
      status_and_result result (pqGetpwuid cfg P uid resultbuf buffer buflen result s)
        = Some (rc, NULL)) \<and>
   (\<not> use_getpwuid_r cfg \<longrightarrow>
      pqGetpwuid cfg P uid resultbuf buffer buflen result s =
      pqGetpwuid cfg P uid resultbuf' buffer' buflen' result s)"
proof (intro conjI impI)
  assume "use_getpwuid_r cfg"
    and "getpwuid_r P uid resultbuf buffer buflen result s = Some (rc, s1)"
  then show call: "pqGetpwuid cfg P uid resultbuf buffer buflen result s = Some (rc, s1)"
    by (simp add: pqGetpwuid_def)
  assume "ptr_slots s1 result = NULL"
  with call show "status_and_result result
      (pqGetpwuid cfg P uid resultbuf buffer buflen result s) = Some (rc, NULL)"
    by (simp add: status_and_result_def)
next
  assume "\<not> use_getpwuid_r cfg"
  then show "pqGetpwuid cfg P uid resultbuf buffer buflen result s =
      pqGetpwuid cfg P uid resultbuf' buffer' buflen' result s"
    by (simp add: pqGetpwuid_def)
qed

theorem pqGetpwuid_undersized_buffer_witness:
  "use_getpwuid_r threaded_build \<and>
   getpwuid_r sample_platform 0 10 20 8 30 sample_world
     = Some (34, sample_world\<lparr>ptr_slots := (ptr_slots sample_world)(30 := NULL)\<rparr>) \<and>
   (34::cint) \<noteq> 0 \<and>
   status_and_result 30 (pqGetpwuid threaded_build sample_platform 0 10 20 8 30 sample_world)
     = Some (34, NULL) \<and>
   \<not> use_getpwuid_r plain_build \<and>
   pqGetpwuid plain_build sample_platform 0 10 20 8 30 sample_world =
   pqGetpwuid plain_build sample_platform 0 10 20 64 30 sample_world"
proof -
  have g: "getpwuid_r sample_platform 0 10 20 8 30 sample_world
     = Some (34, sample_world\<lparr>ptr_slots := (ptr_slots sample_world)(30 := NULL)\<rparr>)"
    by (simp add: sample_platform_sel sample_getpwuid_r_def NULL_def)
  show ?thesis
    using g
      pqGetpwuid_undersized_buffer [of threaded_build sample_platform 0 10 20 8 30 sample_world
        34 "sample_world\<lparr>ptr_slots := (ptr_slots sample_world)(30 := NULL)\<rparr>"]
      pqGetpwuid_undersized_buffer [of plain_build sample_platform 0 10 20 8 30 sample_world
        _ _ 10 20 64]
    by (simp add: threaded_build_reentrant plain_build_legacy status_and_result_def)
qed

text \<open>
  C6. In the reentrant strategy \<^verbatim>\<open>pqGetpwuid\<close> delegates to the platform's reentrant
  form: for every uid, record, buffer, length and result slot, and in every memory, the
  call is the call of \<^verbatim>\<open>getpwuid_r\<close> on the same five arguments. Its return value and
  the memory it leaves are those of \<^verbatim>\<open>getpwuid_r\<close> (also when that call does not
  return); buffer and length are passed unchanged and nothing is normalised on top.
\<close>

theorem pqGetpwuid_reentrant_delegates:
  assumes "use_getpwuid_r cfg"
  shows "pqGetpwuid cfg P uid resultbuf buffer buflen result s =
           getpwuid_r P uid resultbuf buffer buflen result s"
  using assms by (simp add: pqGetpwuid_def)

theorem pqGetpwuid_reentrant_delegates_witness:
  "use_getpwuid_r threaded_build \<and>
   status_and_result 30 (pqGetpwuid threaded_build sample_platform 0 10 20 64 30 sample_world)
     = Some (0, 10) \<and>
   status_and_result 30 (pqGetpwuid threaded_build sample_platform 0 10 20 8 30 sample_world)
     = Some (34, NULL)"
proof -
  have h: "use_getpwuid_r threaded_build" by (rule threaded_build_reentrant)
  show ?thesis
    using h pqGetpwuid_reentrant_delegates [OF h, of sample_platform 0 10 20 64 30 sample_world]
      pqGetpwuid_reentrant_delegates [OF h, of sample_platform 0 10 20 8 30 sample_world]
    by (simp add: sample_platform_sel sample_getpwuid_r_def status_and_result_def NULL_def)
qed

subsection \<open>The host lookup\<close>

text \<open>
  C3. In the legacy strategy \<^verbatim>\<open>pqGethostbyname\<close> copies \<open>h_errno\<close> to \<^verbatim>\<open>*herrno\<close> exactly
  when \<^verbatim>\<open>gethostbyname\<close> returned a non-null pointer. On success the call returns 0 with
  the pointer in \<^verbatim>\<open>*result\<close> and the \<open>h_errno\<close> of that moment in \<^verbatim>\<open>*herrno\<close>. On failure
  it returns \<open>-1\<close> with \<^verbatim>\<open>*result\<close> null, and every int object, \<^verbatim>\<open>*herrno\<close> among them,
  holds what it held when the lookup came back.
\<close>

theorem pqGethostbyname_legacy_herrno:
  assumes "\<not> use_gethostbyname_r cfg"
      and "result \<noteq> NULL"
      and "gethostbyname P name s = Some (p, s1)"
  shows "(p \<noteq> NULL \<and> herrno \<noteq> NULL \<longrightarrow>
            pqGethostbyname cfg P name resultbuf buffer buflen result herrno s =
              Some (0, s1\<lparr>ptr_slots := (ptr_slots s1)(result := p),
                          int_slots := (int_slots s1)(herrno := h_errno s1)\<rparr>)) \<and>
         (p = NULL \<longrightarrow>
            pqGethostbyname cfg P name resultbuf buffer buflen result herrno s =
              Some (- 1, s1\<lparr>ptr_slots := (ptr_slots s1)(result := NULL)\<rparr>)) \<and>
         (\<forall>rc s'. pqGethostbyname cfg P name resultbuf buffer buflen result herrno s
                    = Some (rc, s') \<longrightarrow>
                  (if p \<noteq> NULL then int_slots s' = (int_slots s1)(herrno := h_errno s1)
                   else int_slots s' = int_slots s1))"
  using assms by (auto simp: pqGethostbyname_legacy_returns)

theorem pqGethostbyname_legacy_herrno_witness:
  "\<not> use_gethostbyname_r plain_build \<and> (30::addr) \<noteq> NULL \<and> (40::addr) \<noteq> NULL \<and>
   host_outputs 30 40
     (pqGethostbyname plain_build sample_platform 100 10 20 64 30 40 sample_world)
     = Some (0, 600, 0) \<and>
   host_outputs 30 40
     (pqGethostbyname plain_build sample_platform 101 10 20 64 30 40 sample_world)
     = Some (- 1, NULL, 42)"
proof -
  have h: "\<not> use_gethostbyname_r plain_build" by (rule plain_build_legacy)
  have n: "(30::addr) \<noteq> NULL" "(40::addr) \<noteq> NULL" by (simp_all add: NULL_def)
  have l0: "gethostbyname sample_platform 100 sample_world
              = Some (600, sample_world\<lparr>h_errno := 0\<rparr>)"
    by (simp add: sample_platform_sel sample_gethostbyname_def)
  have l1: "gethostbyname sample_platform 101 sample_world
              = Some (NULL, sample_world\<lparr>h_errno := 1\<rparr>)"
    by (simp add: sample_platform_sel sample_gethostbyname_def)
  show ?thesis
    using h n pqGethostbyname_legacy_herrno [OF h n(1) l0, of 40 10 20 64]
      pqGethostbyname_legacy_herrno [OF h n(1) l1, of 40 10 20 64]
    by (simp add: host_outputs_def NULL_def sample_world_def)
qed

text \<open>
  C4. In the reentrant strategy \<^verbatim>\<open>pqGethostbyname\<close> stores the pointer that
  \<^verbatim>\<open>gethostbyname_r\<close> returns in \<^verbatim>\<open>*result\<close> and turns it into a status: 0 when the
  pointer is not null and \<open>-1\<close>, which is not zero, when it is null.
\<close>

theorem pqGethostbyname_reentrant_normalizes:
  assumes "use_gethostbyname_r cfg"
      and "result \<noteq> NULL"
      and "gethostbyname_r P name resultbuf buffer buflen herrno s = Some (p, s1)"
  shows "pqGethostbyname cfg P name resultbuf buffer buflen result herrno s =
           Some (if p = NULL then - 1 else 0,
                 s1\<lparr>ptr_slots := (ptr_slots s1)(result := p)\<rparr>) \<and>
         (- 1 :: cint) \<noteq> 0"
  using assms by (simp add: pqGethostbyname_reentrant_returns)

theorem pqGethostbyname_reentrant_normalizes_witness:
  "use_gethostbyname_r threaded_build \<and> (30::addr) \<noteq> NULL \<and>
   host_outputs 30 40
     (pqGethostbyname threaded_build sample_platform 100 10 20 64 30 40 sample_world)
     = Some (0, 10, 42) \<and>
   host_outputs 30 40
     (pqGethostbyname threaded_build sample_platform 101 10 20 64 30 40 sample_world)
     = Some (- 1, NULL, 1)"
proof -
  have h: "use_gethostbyname_r threaded_build" by (rule threaded_build_reentrant)
  have n: "(30::addr) \<noteq> NULL" by (simp add: NULL_def)
  have l0: "gethostbyname_r sample_platform 100 10 20 64 40 sample_world
              = Some (10, sample_world\<lparr>bytes := (bytes sample_world)(10 := 2)\<rparr>)"
    by (simp add: sample_platform_sel sample_gethostbyname_r_def)
  have l1: "gethostbyname_r sample_platform 101 10 20 64 40 sample_world
              = Some (NULL, sample_world\<lparr>int_slots := (int_slots sample_world)(40 := 1)\<rparr>)"
    by (simp add: sample_platform_sel sample_gethostbyname_r_def)
  show ?thesis
    using h n pqGethostbyname_reentrant_normalizes [OF h n l0]
      pqGethostbyname_reentrant_normalizes [OF h n l1]
    by (simp add: host_outputs_def NULL_def sample_world_def)
qed



subsection \<open>Both wrappers\<close>




text \<open>
  C9. The legacy branches make no use of \<^verbatim>\<open>resultbuf\<close>, \<^verbatim>\<open>buffer\<close> and \<^verbatim>\<open>buflen\<close>. The call
  is the same whatever these three are (a length of zero included), so no buffer can be
  too small. When the call returns, \<^verbatim>\<open>*result\<close> holds the pointer that the legacy lookup
  returned, a lookup that was given neither the buffer nor the record. The wrapper
  itself writes \<^verbatim>\<open>*result\<close> (and \<^verbatim>\<open>*herrno\<close>, for the host lookup) and nothing else: the
  storage of the caller's buffer and record, and every other slot, hold what they held
  when the lookup came back.
\<close>

theorem legacy_ignores_caller_buffers:
  "(\<not> use_getpwuid_r cfg \<longrightarrow>
      pqGetpwuid cfg P uid resultbuf buffer buflen result s =
      pqGetpwuid cfg P uid resultbuf' buffer' buflen' result s \<and>
      (\<forall>rc s'. pqGetpwuid cfg P uid resultbuf buffer buflen result s = Some (rc, s') \<longrightarrow>
         (\<exists>s1. getpwuid P uid (s\<lparr>errno := 0\<rparr>) = Some (ptr_slots s' result, s1) \<and>
               bytes s' = bytes s1 \<and> int_slots s' = int_slots s1 \<and>
               (\<forall>a. a \<noteq> result \<longrightarrow> ptr_slots s' a = ptr_slots s1 a)))) \<and>
   (\<not> use_gethostbyname_r cfg \<longrightarrow>
      pqGethostbyname cfg P name resultbuf buffer buflen result herrno s =
      pqGethostbyname cfg P name resultbuf' buffer' buflen' result herrno s \<and>
      (\<forall>rc s'. pqGethostbyname cfg P name resultbuf buffer buflen result herrno s
                 = Some (rc, s') \<longrightarrow>
         (\<exists>s1. gethostbyname P name s = Some (ptr_slots s' result, s1) \<and>
               bytes s' = bytes s1 \<and>
               (\<forall>a. a \<noteq> herrno \<longrightarrow> int_slots s' a = int_slots s1 a) \<and>
               (\<forall>a. a \<noteq> result \<longrightarrow> ptr_slots s' a = ptr_slots s1 a))))"
proof (intro conjI impI allI)
  assume "\<not> use_getpwuid_r cfg"
  then show "pqGetpwuid cfg P uid resultbuf buffer buflen result s =
      pqGetpwuid cfg P uid resultbuf' buffer' buflen' result s"
    by (simp add: pqGetpwuid_def)
next
  fix rc s'
  assume "\<not> use_getpwuid_r cfg"
    and "pqGetpwuid cfg P uid resultbuf buffer buflen result s = Some (rc, s')"
  then show "\<exists>s1. getpwuid P uid (s\<lparr>errno := 0\<rparr>) = Some (ptr_slots s' result, s1) \<and>
               bytes s' = bytes s1 \<and> int_slots s' = int_slots s1 \<and>
               (\<forall>a. a \<noteq> result \<longrightarrow> ptr_slots s' a = ptr_slots s1 a)"
    by (auto simp: pqGetpwuid_legacy_returns)
next
  assume "\<not> use_gethostbyname_r cfg"
  then show "pqGethostbyname cfg P name resultbuf buffer buflen result herrno s =
      pqGethostbyname cfg P name resultbuf' buffer' buflen' result herrno s"
    by (simp add: pqGethostbyname_def)
next
  fix rc s'
  assume "\<not> use_gethostbyname_r cfg"
    and "pqGethostbyname cfg P name resultbuf buffer buflen result herrno s = Some (rc, s')"
  then show "\<exists>s1. gethostbyname P name s = Some (ptr_slots s' result, s1) \<and>
               bytes s' = bytes s1 \<and>
               (\<forall>a. a \<noteq> herrno \<longrightarrow> int_slots s' a = int_slots s1 a) \<and>
               (\<forall>a. a \<noteq> result \<longrightarrow> ptr_slots s' a = ptr_slots s1 a)"
    by (auto simp: pqGethostbyname_legacy_returns split: if_splits)
qed

theorem legacy_ignores_caller_buffers_witness:
  "\<not> use_getpwuid_r plain_build \<and> \<not> use_gethostbyname_r plain_build \<and>
   pqGetpwuid plain_build sample_platform 0 10 20 64 30 sample_world =
   pqGetpwuid plain_build sample_platform 0 0 0 0 30 sample_world \<and>
   status_and_result 30 (pqGetpwuid plain_build sample_platform 0 0 0 0 30 sample_world)
     = Some (0, 500) \<and>
   pqGethostbyname plain_build sample_platform 100 10 20 64 30 40 sample_world =
   pqGethostbyname plain_build sample_platform 100 0 0 0 30 40 sample_world \<and>
   host_outputs 30 40 (pqGethostbyname plain_build sample_platform 100 0 0 0 30 40 sample_world)
     = Some (0, 600, 0)"
proof -
  have a: "pqGetpwuid plain_build sample_platform 0 10 20 64 30 sample_world
             = Some (0, sample_world\<lparr>errno := 0, ptr_slots := (ptr_slots sample_world)(30 := 500)\<rparr>)"
    by (simp add: pqGetpwuid_legacy_returns plain_build_legacy sample_platform_sel
          sample_getpwuid_def NULL_def)
  have b: "pqGethostbyname plain_build sample_platform 100 10 20 64 30 40 sample_world
             = Some (0, sample_world\<lparr>h_errno := 0,
                      ptr_slots := (ptr_slots sample_world)(30 := 600),
                      int_slots := (int_slots sample_world)(40 := 0)\<rparr>)"
    by (simp add: pqGethostbyname_legacy_returns plain_build_legacy sample_platform_sel
          sample_gethostbyname_def NULL_def)
  have eqs: "pqGetpwuid plain_build sample_platform 0 10 20 64 30 sample_world =
         pqGetpwuid plain_build sample_platform 0 0 0 0 30 sample_world"
       "pqGethostbyname plain_build sample_platform 100 10 20 64 30 40 sample_world =
        pqGethostbyname plain_build sample_platform 100 0 0 0 30 40 sample_world"
    using legacy_ignores_caller_buffers [of plain_build sample_platform 0 10 20 64 30
        sample_world 0 0 0 100 40]
    by (simp_all add: plain_build_legacy)
  from eqs(1) a have a': "pqGetpwuid plain_build sample_platform 0 0 0 0 30 sample_world
             = Some (0, sample_world\<lparr>errno := 0, ptr_slots := (ptr_slots sample_world)(30 := 500)\<rparr>)"
    by simp
  from eqs(2) b have b': "pqGethostbyname plain_build sample_platform 100 0 0 0 30 40 sample_world
             = Some (0, sample_world\<lparr>h_errno := 0,
                      ptr_slots := (ptr_slots sample_world)(30 := 600),
                      int_slots := (int_slots sample_world)(40 := 0)\<rparr>)"
    by simp
  show ?thesis
    unfolding a b a' b'
    by (simp add: plain_build_legacy status_and_result_def host_outputs_def)
qed



end
